theory Spec2Isabelle
  imports Main
begin

section \<open>NNabla communicator utilities (comm.py): the embedding\<close>

text \<open>
  The module is glue code over a framework: it calls the framework's communicator,
  solvers, logger and context factory, and it defines a dictionary class with attribute
  access. The embedding keeps the module's own control flow and data handling:
  \<^item> Python built-ins that work on data (\<open>int\<close>, \<open>str\<close>, \<open>split\<close>, indexing, \<open>join\<close>,
    dictionary lookup) are functions of this theory, with their exceptions as values;
  \<^item> calls into the framework are recorded, in order, as events; what a framework call
    returns is read from an environment record. Only the communicator's constructor and
    its \<open>init\<close> are taken to raise, which is what the module's \<open>try\<close> block handles;
  \<^item> dictionaries that attribute access rewrites in place live in a store of objects.
\<close>

subsection \<open>Exceptions\<close>

text \<open>
  Instances of Python's \<open>Exception\<close> class, with their message. Classes that derive from
  \<open>BaseException\<close> only (\<open>KeyboardInterrupt\<close>, \<open>SystemExit\<close>) are outside this type:
  \<open>except Exception\<close> does not catch them.
\<close>

datatype exn =
    AttributeError string
  | ValueError string
  | IndexError string
  | TypeError string
  | RuntimeError string

fun exn_message :: "exn \<Rightarrow> string" where
  "exn_message (AttributeError m) = m"
| "exn_message (ValueError m) = m"
| "exn_message (IndexError m) = m"
| "exn_message (TypeError m) = m"
| "exn_message (RuntimeError m) = m"

subsection \<open>The built-ins \<open>int\<close> and \<open>str\<close> on device ids\<close>

text \<open>
  \<open>int(s)\<close> for a string \<open>s\<close>, base 10, on ASCII text: surrounding whitespace is
  stripped, one sign is allowed, then decimal digits, where single underscores may stand
  between digits. Anything else raises \<open>ValueError\<close>. The whitespace that \<open>int\<close> strips from
  an ASCII string is the tab, the line feed, the vertical tab, the form feed, the carriage
  return and the space; the separators \<open>0x1C\<close> to \<open>0x1F\<close> are not among them. Characters are
  bytes here, so decimal digits outside ASCII are not covered, and neither is the bound
  that recent interpreters put on the number of digits.
\<close>

definition is_space :: "char \<Rightarrow> bool" where
  "is_space c = (c \<in> set [CHR 0x09, CHR 0x0A, CHR 0x0B, CHR 0x0C, CHR 0x0D, CHR 0x20])"

definition is_digit :: "char \<Rightarrow> bool" where
  "is_digit c = (48 \<le> (of_char c :: nat) \<and> (of_char c :: nat) \<le> 57)"

definition digit_val :: "char \<Rightarrow> nat" where
  "digit_val c = of_char c - 48"

definition digit_char :: "nat \<Rightarrow> char" where
  "digit_char n = ''0123456789'' ! n"

definition strip :: "string \<Rightarrow> string" where
  "strip s = rev (dropWhile is_space (rev (dropWhile is_space s)))"

text \<open>The digits after a first digit; \<open>acc\<close> is the number read so far.\<close>

fun digits_from :: "nat \<Rightarrow> string \<Rightarrow> nat option" where
  "digits_from acc [] = Some acc"
| "digits_from acc [c] = (if is_digit c then Some (10 * acc + digit_val c) else None)"
| "digits_from acc (c # d # ds) =
     (if is_digit c then digits_from (10 * acc + digit_val c) (d # ds)
      else if c = CHR ''_'' \<and> is_digit d then digits_from (10 * acc + digit_val d) ds
      else None)"

definition parse_nat :: "string \<Rightarrow> nat option" where
  "parse_nat s =
     (case s of
        [] \<Rightarrow> None
      | c # cs \<Rightarrow> if is_digit c then digits_from (digit_val c) cs else None)"

text \<open>A name or literal between single quotes, as Python's messages show it.\<close>

definition quoted :: "string \<Rightarrow> string" where
  "quoted s = [CHR 0x27] @ s @ [CHR 0x27]"

definition invalid_literal :: "string \<Rightarrow> exn" where
  "invalid_literal s = ValueError (''invalid literal for int() with base 10: '' @ quoted s)"

definition py_int :: "string \<Rightarrow> exn + int" where
  "py_int s =
     (case strip s of
        [] \<Rightarrow> Inl (invalid_literal s)
      | c # cs \<Rightarrow>
          if c = CHR ''-'' then
            (case parse_nat cs of None \<Rightarrow> Inl (invalid_literal s) | Some n \<Rightarrow> Inr (- int n))
          else if c = CHR ''+'' then
            (case parse_nat cs of None \<Rightarrow> Inl (invalid_literal s) | Some n \<Rightarrow> Inr (int n))
          else
            (case parse_nat (c # cs) of None \<Rightarrow> Inl (invalid_literal s) | Some n \<Rightarrow> Inr (int n)))"

text \<open>\<open>str(i)\<close> for an integer: its decimal digits, with a minus sign when negative.\<close>

fun str_nat :: "nat \<Rightarrow> string" where
  "str_nat n = (if n < 10 then [digit_char n] else str_nat (n div 10) @ [digit_char (n mod 10)])"

declare str_nat.simps [simp del]

definition py_str :: "int \<Rightarrow> string" where
  "py_str i = (if i < 0 then CHR ''-'' # str_nat (nat (- i)) else str_nat (nat i))"

subsection \<open>String and list built-ins\<close>

text \<open>\<open>s.split(sep)\<close> for a one-character separator: never the empty list.\<close>

fun split_chr :: "char \<Rightarrow> string \<Rightarrow> string list" where
  "split_chr sep [] = [[]]"
| "split_chr sep (c # cs) =
     (if c = sep then [] # split_chr sep cs
      else (case split_chr sep cs of
              [] \<Rightarrow> [[c]]
            | p # ps \<Rightarrow> (c # p) # ps))"

text \<open>\<open>xs[0]\<close>: raises \<open>IndexError\<close> on the empty list.\<close>

definition index0 :: "'a list \<Rightarrow> exn + 'a" where
  "index0 xs = (case xs of [] \<Rightarrow> Inl (IndexError ''list index out of range'') | x # _ \<Rightarrow> Inr x)"

text \<open>\<open>sep.join(xs)\<close> for a list of strings.\<close>

fun join :: "string \<Rightarrow> string list \<Rightarrow> string" where
  "join sep [] = []"
| "join sep [x] = x"
| "join sep (x # y # ys) = x @ sep @ join sep (y # ys)"

subsection \<open>Framework objects\<close>

text \<open>
  A device context of the framework: the list of backends (such as \<open>cudnn:float\<close>), the
  array class and the device id, which the framework keeps as a string.
\<close>

record device_context =
  backend :: "string list"
  array_class :: string
  device_id :: string

text \<open>
  The framework's multi-process communicator, as far as the module reads it: its
  identity and the properties \<open>size\<close>, \<open>rank\<close> and \<open>local_rank\<close>.
\<close>

record communicator =
  comm_id :: nat
  comm_size :: int
  comm_rank :: int
  comm_local_rank :: int

datatype ndarray = NdArray nat

record variable =
  var_data :: ndarray
  grad :: ndarray

text \<open>A solver and the parameters it holds, in the order of its parameter dictionary.\<close>

record solver =
  solver_id :: nat
  parameters :: "(string \<times> variable) list"

definition get_parameters :: "solver \<Rightarrow> (string \<times> variable) list" where
  "get_parameters s = parameters s"

text \<open>\<open>d.values()\<close> of a dictionary kept as an association list.\<close>

definition dict_values :: "('k \<times> 'v) list \<Rightarrow> 'v list" where
  "dict_values kvs = map snd kvs"

datatype callback = Callback nat

text \<open>
  Python values held in configuration dictionaries: scalars, a list of strings (the
  \<open>_parent\<close> path), a reference to a dictionary object of the store, a reference to an
  object that is no dictionary, and an attribute that ordinary lookup finds on the
  class of an object (a bound method, for a method).
\<close>

datatype pyval =
    VNone
  | VBool bool
  | VInt int
  | VStr string
  | VPath "string list"
  | VRef nat
  | VObj nat
  | VAttr nat string

subsection \<open>The environment and the events\<close>

text \<open>
  What the framework returns. The constructor of the communicator and its \<open>init\<close> may
  raise; \<open>comm_init\<close> gives the communicator as it is once initialised.
  \<open>dict_attrs\<close> lists the attribute names that the built-in \<open>dict\<close> and \<open>object\<close> classes
  resolve; \<open>nn_get_parameters\<close> is the global parameter registry.
\<close>

record env =
  MultiProcessDataParallelCommunicator :: "device_context \<Rightarrow> exn + communicator"
  comm_init :: "communicator \<Rightarrow> exn + communicator"
  get_extension_context :: "pyval \<Rightarrow> pyval option \<Rightarrow> pyval option \<Rightarrow> device_context"
  all_reduce_callback :: "communicator \<Rightarrow> ndarray list \<Rightarrow> int \<Rightarrow> callback"
  nn_get_parameters :: "(string \<times> variable) list"
  dict_attrs :: "string list"

text \<open>The effects of the module, in the order they happen.\<close>

datatype event =
    Print string
  | LoggerInfo string
  | LoggerSetLevel int
  | SetDefaultContext device_context
  | CommAllReduce communicator "ndarray list" bool bool
  | CommBarrier communicator
  | SolverUpdate solver

definition logging_ERROR :: int where
  "logging_ERROR = 40"

subsection \<open>\<open>create_float_context\<close> and \<open>CommunicatorWrapper\<close>\<close>

definition create_float_context :: "env \<Rightarrow> device_context \<Rightarrow> exn + device_context" where
  "create_float_context e c =
     (case index0 (backend c) of
        Inl x \<Rightarrow> Inl x
      | Inr b \<Rightarrow>
          (case index0 (split_chr (CHR '':'') b) of
             Inl x \<Rightarrow> Inl x
           | Inr name \<Rightarrow>
               Inr (get_extension_context e (VStr name) (Some (VStr (device_id c))) None)))"

record communicator_wrapper =
  n_procs :: int
  rank :: int
  local_rank :: int
  comm :: "communicator option"
  ctx :: device_context
  ctx_float :: device_context

definition no_communicator_message :: string where
  "no_communicator_message =
     ''No communicator found. Running with a single process. If you run this with MPI processes,''
     @ '' all processes will perform totally same.''"

text \<open>
  The first two statements of the \<open>try\<close> block: constructing the communicator for the
  context and initialising it. Either may raise.
\<close>

definition connect :: "env \<Rightarrow> device_context \<Rightarrow> exn + communicator" where
  "connect e c =
     (case MultiProcessDataParallelCommunicator e c of
        Inl x \<Rightarrow> Inl x
      | Inr cm \<Rightarrow> comm_init e cm)"

text \<open>
  The \<open>try\<close> block of the constructor: the values of \<open>n_procs\<close>, \<open>rank\<close>, \<open>local_rank\<close>
  and \<open>comm\<close> it leaves, and what it prints.
\<close>

definition try_communicator ::
  "env \<Rightarrow> device_context \<Rightarrow> (int \<times> int \<times> int \<times> communicator option) \<times> event list" where
  "try_communicator e c =
     (case connect e c of
        Inr cm \<Rightarrow> ((comm_size cm, comm_rank cm, comm_local_rank cm, Some cm), [])
      | Inl x \<Rightarrow> ((1, 0, 0, None), [Print (exn_message x), Print no_communicator_message]))"

definition using_gpu_message :: "string \<Rightarrow> int \<Rightarrow> string" where
  "using_gpu_message dev r =
     ''[Communicator] Using gpu_id = '' @ dev @ '' as rank = '' @ py_str r"

text \<open>
  The constructor: the outcome (the wrapper, or the exception that leaves it) and the
  events up to there. The wrapper's \<open>ctx\<close> is the caller's context object, whose device
  id the constructor overwrites.
\<close>

definition CommunicatorWrapper_init ::
  "env \<Rightarrow> device_context \<Rightarrow> (exn + communicator_wrapper) \<times> event list" where
  "CommunicatorWrapper_init e c =
     (case try_communicator e c of
        ((np, r, lr, cm), evs) \<Rightarrow>
          (case py_int (device_id c) of
             Inl x \<Rightarrow> (Inl x, evs)
           | Inr d \<Rightarrow>
               (let c' = c\<lparr>device_id := py_str (d + lr)\<rparr> in
                case create_float_context e c' of
                  Inl x \<Rightarrow> (Inl x, evs)
                | Inr cf \<Rightarrow>
                    (Inr \<lparr>n_procs = np, rank = r, local_rank = lr, comm = cm,
                          ctx = c', ctx_float = cf\<rparr>,
                     evs @ [LoggerInfo (using_gpu_message (device_id c') r)]))))"

definition none_has_no :: "string \<Rightarrow> exn" where
  "none_has_no a =
     AttributeError (quoted ''NoneType'' @ '' object has no attribute '' @ quoted a)"

definition all_reduce ::
  "communicator_wrapper \<Rightarrow> ndarray list \<Rightarrow> bool \<Rightarrow> bool \<Rightarrow> (exn + unit) \<times> event list" where
  "all_reduce self params division inplace =
     (if n_procs self = 1 then (Inr (), [])
      else (case comm self of
              None \<Rightarrow> (Inl (none_has_no ''all_reduce''), [])
            | Some cm \<Rightarrow> (Inr (), [CommAllReduce cm params division inplace])))"

definition barrier :: "communicator_wrapper \<Rightarrow> (exn + unit) \<times> event list" where
  "barrier self =
     (if n_procs self = 1 then (Inr (), [])
      else (case comm self of
              None \<Rightarrow> (Inl (none_has_no ''barrier''), [])
            | Some cm \<Rightarrow> (Inr (), [CommBarrier cm])))"

text \<open>A keyword argument with a default: \<open>None\<close> stands for an argument left out.\<close>

definition or_default :: "'a \<Rightarrow> 'a option \<Rightarrow> 'a" where
  "or_default d a = (case a of None \<Rightarrow> d | Some v \<Rightarrow> v)"

definition all_reduced_solver_update ::
  "communicator_wrapper \<Rightarrow> solver \<Rightarrow> bool option \<Rightarrow> bool option \<Rightarrow> (exn + unit) \<times> event list" where
  "all_reduced_solver_update self s division inplace =
     (if n_procs self > 1 then
        (case all_reduce self (map grad (dict_values (get_parameters s)))
                (or_default False division) (or_default True inplace) of
           (Inl x, evs) \<Rightarrow> (Inl x, evs)
         | (Inr _, evs) \<Rightarrow> (Inr (), evs @ [SolverUpdate s]))
      else (Inr (), [SolverUpdate s]))"

text \<open>The loop over the solvers: it ends at the first exception.\<close>

fun solvers_loop ::
  "communicator_wrapper \<Rightarrow> solver list \<Rightarrow> bool \<Rightarrow> bool \<Rightarrow> (exn + unit) \<times> event list" where
  "solvers_loop self [] division inplace = (Inr (), [])"
| "solvers_loop self (s # ss) division inplace =
     (case all_reduced_solver_update self s (Some division) (Some inplace) of
        (Inl x, evs) \<Rightarrow> (Inl x, evs)
      | (Inr _, evs) \<Rightarrow>
          (case solvers_loop self ss division inplace of
             (r, evs') \<Rightarrow> (r, evs @ evs')))"

definition all_reduced_solver_update_all ::
  "communicator_wrapper \<Rightarrow> solver list \<Rightarrow> bool option \<Rightarrow> bool option \<Rightarrow> (exn + unit) \<times> event list" where
  "all_reduced_solver_update_all self solvers division inplace =
     solvers_loop self solvers (or_default False division) (or_default True inplace)"

definition default_packing_size :: int where
  "default_packing_size = push_bit 20 2"

definition get_all_reduce_callback ::
  "env \<Rightarrow> communicator_wrapper \<Rightarrow> int option \<Rightarrow> exn + callback option" where
  "get_all_reduce_callback e self packing_size =
     (if n_procs self > 1 then
        (case comm self of
           None \<Rightarrow> Inl (none_has_no ''all_reduce_callback'')
         | Some cm \<Rightarrow>
             Inr (Some (all_reduce_callback e cm
                          (map grad (dict_values (nn_get_parameters e)))
                          (or_default default_packing_size packing_size))))
      else Inr None)"

subsection \<open>\<open>AttrDict\<close>\<close>

text \<open>
  Dictionary objects live in a store, an object's address being its index; a new object
  is appended. An object is a plain \<open>dict\<close> or an \<open>AttrDict\<close>; \<open>own_parent\<close> is the entry
  \<open>_parent\<close> of the instance's \<open>__dict__\<close>, when it has been assigned; \<open>items\<close> holds the
  entries in insertion order, under string keys.
\<close>

datatype pyclass = PlainDict | AttrDictClass

record dictobj =
  klass :: pyclass
  own_parent :: "pyval option"
  items :: "(string \<times> pyval) list"

type_synonym store = "dictobj list"

definition store_get :: "store \<Rightarrow> nat \<Rightarrow> dictobj option" where
  "store_get h a = (if a < length h then Some (h ! a) else None)"

text \<open>An address outside the store denotes no object; no run of the module produces one.\<close>

definition no_such_object :: exn where
  "no_such_object = RuntimeError ''no such object''"

text \<open>\<open>d[k] = v\<close>: an existing key keeps its place, a new key goes last.\<close>

fun dict_setitem :: "(string \<times> pyval) list \<Rightarrow> string \<Rightarrow> pyval \<Rightarrow> (string \<times> pyval) list" where
  "dict_setitem [] k v = [(k, v)]"
| "dict_setitem ((k', v') # kvs) k v =
     (if k' = k then (k, v) # kvs else (k', v') # dict_setitem kvs k v)"

text \<open>\<open>isinstance(v, dict)\<close>: the dictionary object behind \<open>v\<close>, plain or \<open>AttrDict\<close>.\<close>

definition dict_of :: "store \<Rightarrow> pyval \<Rightarrow> dictobj option" where
  "dict_of h v = (case v of VRef a \<Rightarrow> store_get h a | _ \<Rightarrow> None)"

text \<open>The class attribute \<open>_parent = []\<close>, and \<open>self._parent\<close> as ordinary lookup finds it.\<close>

definition class_parent :: pyval where
  "class_parent = VPath []"

definition get_parent :: "dictobj \<Rightarrow> pyval" where
  "get_parent d = (case own_parent d of None \<Rightarrow> class_parent | Some v \<Rightarrow> v)"

text \<open>
  \<open>self._parent + [key]\<close>: list concatenation, a \<open>TypeError\<close> when \<open>_parent\<close> is no list
  (Python's message then names the two operand types; it is shortened here).
\<close>

definition parent_plus_key :: "pyval \<Rightarrow> string \<Rightarrow> exn + string list" where
  "parent_plus_key p key =
     (case p of
        VPath ks \<Rightarrow> Inr (ks @ [key])
      | _ \<Rightarrow> Inl (TypeError ''unsupported operand type(s) for +''))"

definition no_chain_message :: "string list \<Rightarrow> string" where
  "no_chain_message chain =
     ''dict (AttrDict) has no chain of attributes '' @ [CHR 0x27] @ join ''.'' chain @ [CHR 0x27]"

definition AttrDict_setattr :: "store \<Rightarrow> nat \<Rightarrow> string \<Rightarrow> pyval \<Rightarrow> (exn + unit) \<times> store" where
  "AttrDict_setattr h self key val =
     (case store_get h self of
        None \<Rightarrow> (Inl no_such_object, h)
      | Some d \<Rightarrow>
          if key = ''_parent'' then (Inr (), h[self := d\<lparr>own_parent := Some val\<rparr>])
          else (Inr (), h[self := d\<lparr>items := dict_setitem (items d) key val\<rparr>]))"

text \<open>
  The method \<open>__getattr__\<close>. When the value under the key is a dictionary, a new
  \<open>AttrDict\<close> with the same entries is created and stored under the key, its \<open>_parent\<close> is
  assigned, and the new object is returned.
\<close>

definition AttrDict_getattr :: "store \<Rightarrow> nat \<Rightarrow> string \<Rightarrow> (exn + pyval) \<times> store" where
  "AttrDict_getattr h self key =
     (case store_get h self of
        None \<Rightarrow> (Inl no_such_object, h)
      | Some d \<Rightarrow>
          (case map_of (items d) key of
             None \<Rightarrow>
               (case parent_plus_key (get_parent d) key of
                  Inl x \<Rightarrow> (Inl x, h)
                | Inr chain \<Rightarrow> (Inl (AttributeError (no_chain_message chain)), h))
           | Some v \<Rightarrow>
               (case dict_of h v of
                  None \<Rightarrow> (Inr v, h)
                | Some src \<Rightarrow>
                    (let a = length h;
                         h1 = h @ [\<lparr>klass = AttrDictClass, own_parent = None, items = items src\<rparr>];
                         h2 = h1[self := d\<lparr>items := dict_setitem (items d) key (VRef a)\<rparr>]
                     in case parent_plus_key (get_parent d) key of
                          Inl x \<Rightarrow> (Inl x, h2)
                        | Inr chain \<Rightarrow>
                            (case AttrDict_setattr h2 a ''_parent'' (VPath chain) of
                               (Inl x, h3) \<Rightarrow> (Inl x, h3)
                             | (Inr _, h3) \<Rightarrow> (Inr (VRef a), h3))))))"

text \<open>
  The names that ordinary lookup finds on an instance of class \<open>AttrDict\<close> and not on a
  plain \<open>dict\<close>: the names its body defines, and \<open>__dict__\<close>, \<open>__module__\<close> and
  \<open>__weakref__\<close>, which the class statement gives every subclass of \<open>dict\<close>. Ordinary lookup
  finds them, and the names of \<open>dict_attrs\<close>, before \<open>__getattr__\<close> is asked.
\<close>

definition dict_has_no :: "string \<Rightarrow> exn" where
  "dict_has_no a = AttributeError (quoted ''dict'' @ '' object has no attribute '' @ quoted a)"

definition AttrDict_class_attrs :: "string list" where
  "AttrDict_class_attrs =
     [''_parent'', ''__setattr__'', ''__getattr__'', ''dump_to_stdout'',
      ''__dict__'', ''__module__'', ''__weakref__'']"

text \<open>
  The expression \<open>obj.key\<close> on a dictionary object: ordinary lookup first (the instance's
  \<open>_parent\<close>, then the classes), and \<open>__getattr__\<close> only for an \<open>AttrDict\<close> on which ordinary
  lookup finds nothing.
\<close>

definition py_getattr :: "env \<Rightarrow> store \<Rightarrow> nat \<Rightarrow> string \<Rightarrow> (exn + pyval) \<times> store" where
  "py_getattr e h obj key =
     (case store_get h obj of
        None \<Rightarrow> (Inl no_such_object, h)
      | Some d \<Rightarrow>
          (case klass d of
             PlainDict \<Rightarrow>
               if key \<in> set (dict_attrs e) then (Inr (VAttr obj key), h)
               else (Inl (dict_has_no key), h)
           | AttrDictClass \<Rightarrow>
               if key = ''_parent'' then (Inr (get_parent d), h)
               else if key \<in> set AttrDict_class_attrs \<or> key \<in> set (dict_attrs e)
                 then (Inr (VAttr obj key), h)
               else AttrDict_getattr h obj key))"

text \<open>
  The statement \<open>obj.key = val\<close>: \<open>__setattr__\<close> for an \<open>AttrDict\<close>; a plain \<open>dict\<close> refuses
  it with an \<open>AttributeError\<close> (whose text, for a name that \<open>dict\<close> defines, says that the
  attribute is read-only; the text for an unknown name is given here).
\<close>

definition py_setattr :: "store \<Rightarrow> nat \<Rightarrow> string \<Rightarrow> pyval \<Rightarrow> (exn + unit) \<times> store" where
  "py_setattr h obj key val =
     (case store_get h obj of
        None \<Rightarrow> (Inl no_such_object, h)
      | Some d \<Rightarrow>
          (case klass d of
             PlainDict \<Rightarrow> (Inl (dict_has_no key), h)
           | AttrDictClass \<Rightarrow> AttrDict_setattr h obj key val))"

subsection \<open>\<open>init_nnabla\<close>\<close>

text \<open>\<open>if v is not None: conf.key = v\<close>\<close>

definition set_if_given :: "store \<Rightarrow> nat \<Rightarrow> string \<Rightarrow> pyval \<Rightarrow> (exn + unit) \<times> store" where
  "set_if_given h conf key v = (if v \<noteq> VNone then py_setattr h conf key v else (Inr (), h))"

text \<open>
  \<open>conf\<close> is \<open>None\<close> or the address of a dictionary object; the other arguments are Python
  values, \<open>VNone\<close> when left out. The result is the outcome, the store and the events.
\<close>

definition init_nnabla ::
  "env \<Rightarrow> store \<Rightarrow> nat option \<Rightarrow> pyval \<Rightarrow> pyval \<Rightarrow> pyval \<Rightarrow>
     (exn + communicator_wrapper) \<times> store \<times> event list" where
  "init_nnabla e h conf ext_name dev type_config =
     (case (case conf of
              None \<Rightarrow> (length h, h @ [\<lparr>klass = AttrDictClass, own_parent = None, items = []\<rparr>])
            | Some a \<Rightarrow> (a, h)) of
        (a, h0) \<Rightarrow>
     (case set_if_given h0 a ''ext_name'' ext_name of
        (Inl x, h1) \<Rightarrow> (Inl x, h1, [])
      | (Inr _, h1) \<Rightarrow>
     (case set_if_given h1 a ''device_id'' dev of
        (Inl x, h2) \<Rightarrow> (Inl x, h2, [])
      | (Inr _, h2) \<Rightarrow>
     (case set_if_given h2 a ''type_config'' type_config of
        (Inl x, h3) \<Rightarrow> (Inl x, h3, [])
      | (Inr _, h3) \<Rightarrow>
     (case py_getattr e h3 a ''ext_name'' of
        (Inl x, h4) \<Rightarrow> (Inl x, h4, [])
      | (Inr v1, h4) \<Rightarrow>
     (case py_getattr e h4 a ''device_id'' of
        (Inl x, h5) \<Rightarrow> (Inl x, h5, [])
      | (Inr v2, h5) \<Rightarrow>
     (case py_getattr e h5 a ''type_config'' of
        (Inl x, h6) \<Rightarrow> (Inl x, h6, [])
      | (Inr v3, h6) \<Rightarrow>
     (case CommunicatorWrapper_init e (get_extension_context e v1 (Some v2) (Some v3)) of
        (Inl x, evs) \<Rightarrow> (Inl x, h6, evs)
      | (Inr cw, evs) \<Rightarrow>
          (Inr cw, h6,
           evs @ [SetDefaultContext (ctx cw)]
               @ (if rank cw > 0 then [LoggerSetLevel logging_ERROR] else []))))))))))"

text \<open>The levels that a run sets on the logger, in order.\<close>

fun set_level_of :: "event \<Rightarrow> int option" where
  "set_level_of (LoggerSetLevel l) = Some l"
| "set_level_of _ = None"

definition set_levels :: "event list \<Rightarrow> int list" where
  "set_levels evs = List.map_filter set_level_of evs"

subsection \<open>One call after another\<close>

text \<open>
  Sequential composition of two calls: the second runs only when the first has returned,
  and the events of both add up. \<open>one_at_a_time\<close> is the reading of "apply
  \<open>all_reduced_solver_update\<close> to each solver in the order given, with the same flags".
\<close>

definition after ::
  "(exn + unit) \<times> event list \<Rightarrow> (exn + unit) \<times> event list \<Rightarrow> (exn + unit) \<times> event list" where
  "after a b =
     (case a of
        (Inl x, evs) \<Rightarrow> (Inl x, evs)
      | (Inr _, evs) \<Rightarrow> (fst b, evs @ snd b))"

definition one_at_a_time ::
  "communicator_wrapper \<Rightarrow> solver list \<Rightarrow> bool \<Rightarrow> bool \<Rightarrow> (exn + unit) \<times> event list" where
  "one_at_a_time self solvers division inplace =
     foldl (\<lambda>done s. after done (all_reduced_solver_update self s (Some division) (Some inplace)))
       (Inr (), []) solvers"

subsection \<open>Example inputs\<close>

text \<open>
  Two environments: one with no multi-process runtime, where constructing the
  communicator raises, and one where the process is rank 2 of 4. Both build an extension
  context from the name and the device id they are given.
\<close>

definition str_of :: "pyval \<Rightarrow> string" where
  "str_of v = (case v of VStr s \<Rightarrow> s | VInt i \<Rightarrow> py_str i | _ \<Rightarrow> [])"

definition example_context :: "pyval \<Rightarrow> pyval option \<Rightarrow> pyval option \<Rightarrow> device_context" where
  "example_context name dev tc =
     \<lparr>backend = [str_of name @ '':'' @ (case tc of None \<Rightarrow> ''float'' | Some t \<Rightarrow> str_of t)],
      array_class = ''CudaCachedArray'',
      device_id = (case dev of None \<Rightarrow> ''0'' | Some d \<Rightarrow> str_of d)\<rparr>"

definition example_variables :: "(string \<times> variable) list" where
  "example_variables =
     [(''conv/W'', \<lparr>var_data = NdArray 0, grad = NdArray 1\<rparr>),
      (''conv/b'', \<lparr>var_data = NdArray 2, grad = NdArray 3\<rparr>)]"

definition env_single :: env where
  "env_single =
     \<lparr>MultiProcessDataParallelCommunicator = (\<lambda>c. Inl (RuntimeError ''MPI is not available'')),
      comm_init = (\<lambda>cm. Inr cm),
      get_extension_context = example_context,
      all_reduce_callback = (\<lambda>cm ps n. Callback 0),
      nn_get_parameters = example_variables,
      dict_attrs = [''clear'', ''copy'', ''get'', ''items'', ''keys'', ''pop'', ''update'', ''values'']\<rparr>"

definition comm_rank2 :: communicator where
  "comm_rank2 = \<lparr>comm_id = 7, comm_size = 4, comm_rank = 2, comm_local_rank = 2\<rparr>"

definition env_multi :: env where
  "env_multi =
     \<lparr>MultiProcessDataParallelCommunicator =
        (\<lambda>c. Inr \<lparr>comm_id = 7, comm_size = 0, comm_rank = 0, comm_local_rank = 0\<rparr>),
      comm_init = (\<lambda>cm. Inr comm_rank2),
      get_extension_context = example_context,
      all_reduce_callback = (\<lambda>cm ps n. Callback (nat n)),
      nn_get_parameters = example_variables,
      dict_attrs = [''clear'', ''copy'', ''get'', ''items'', ''keys'', ''pop'', ''update'', ''values'']\<rparr>"

definition ctx_gpu :: device_context where
  "ctx_gpu = \<lparr>backend = [''cudnn:float'', ''cuda:float''], array_class = ''CudaCachedArray'',
              device_id = ''0''\<rparr>"

definition ctx_no_device :: device_context where
  "ctx_no_device = \<lparr>backend = [''cpu:float''], array_class = ''CpuCachedArray'', device_id = []\<rparr>"

definition example_solver :: solver where
  "example_solver = \<lparr>solver_id = 0, parameters = example_variables\<rparr>"

text \<open>A configuration \<open>AttrDict\<close> at address 0 whose entry \<open>model\<close> is the plain dictionary at 1.\<close>

definition example_conf :: dictobj where
  "example_conf =
     \<lparr>klass = AttrDictClass, own_parent = None,
      items = [(''model'', VRef 1), (''epochs'', VInt 3)]\<rparr>"

definition example_model :: dictobj where
  "example_model = \<lparr>klass = PlainDict, own_parent = None, items = [(''depth'', VInt 5)]\<rparr>"

definition example_store :: store where
  "example_store = [example_conf, example_model]"

section \<open>Properties\<close>

subsection \<open>\<open>int\<close> reads back what \<open>str\<close> writes\<close>

lemma below_ten: "n < 10 \<Longrightarrow> n \<in> {0, 1, 2, 3, 4, 5, 6, 7, 8, 9::nat}"
  by (simp, arith)

lemma digit_char_is_digit: "n < 10 \<Longrightarrow> is_digit (digit_char n)"
  by (drule below_ten) (auto simp: is_digit_def digit_char_def)

lemma digit_val_digit_char: "n < 10 \<Longrightarrow> digit_val (digit_char n) = n"
  by (drule below_ten) (auto simp: digit_val_def digit_char_def)

lemma is_digit_not_space: "is_digit c \<Longrightarrow> \<not> is_space c"
  by (auto simp: is_digit_def is_space_def)

lemma digits_from_all_digits:
  "list_all is_digit ds \<Longrightarrow>
   digits_from acc ds = Some (foldl (\<lambda>a c. 10 * a + digit_val c) acc ds)"
  by (induction acc ds rule: digits_from.induct) auto

lemma str_nat_all_digits: "list_all is_digit (str_nat n)"
proof (induction n rule: str_nat.induct)
  case (1 n)
  show ?case
  proof (cases "n < 10")
    case True
    then show ?thesis by (simp add: str_nat.simps [of n] digit_char_is_digit)
  next
    case False
    with 1 show ?thesis by (simp add: str_nat.simps [of n] digit_char_is_digit)
  qed
qed

lemma str_nat_not_Nil: "str_nat n \<noteq> []"
  by (subst str_nat.simps) simp

lemma str_nat_value: "foldl (\<lambda>a c. 10 * a + digit_val c) 0 (str_nat n) = n"
proof (induction n rule: str_nat.induct)
  case (1 n)
  show ?case
  proof (cases "n < 10")
    case True
    then show ?thesis by (simp add: str_nat.simps [of n] digit_val_digit_char)
  next
    case False
    with 1 show ?thesis by (simp add: str_nat.simps [of n] digit_val_digit_char)
  qed
qed

lemma parse_nat_str_nat: "parse_nat (str_nat n) = Some n"
proof (cases "str_nat n")
  case Nil
  then show ?thesis by (simp add: str_nat_not_Nil)
next
  case (Cons c cs)
  have all: "list_all is_digit (c # cs)"
    using str_nat_all_digits [of n] Cons by simp
  have "foldl (\<lambda>a c. 10 * a + digit_val c) 0 (c # cs) = n"
    using str_nat_value [of n] Cons by simp
  then have "foldl (\<lambda>a c. 10 * a + digit_val c) (digit_val c) cs = n"
    by simp
  with all Cons show ?thesis
    by (simp add: parse_nat_def digits_from_all_digits)
qed

lemma dropWhile_hd_id: "xs \<noteq> [] \<Longrightarrow> \<not> P (hd xs) \<Longrightarrow> dropWhile P xs = xs"
  by (cases xs) auto

lemma strip_id:
  assumes "s \<noteq> []" and "\<not> is_space (hd s)" and "\<not> is_space (last s)"
  shows "strip s = s"
proof -
  have "dropWhile is_space s = s"
    using assms by (simp add: dropWhile_hd_id)
  moreover have "dropWhile is_space (rev s) = rev s"
    using assms by (simp add: dropWhile_hd_id hd_rev)
  ultimately show ?thesis by (simp add: strip_def)
qed

lemma str_nat_hd_last: "is_digit (hd (str_nat n)) \<and> is_digit (last (str_nat n))"
  using str_nat_all_digits [of n] str_nat_not_Nil [of n]
  by (simp add: list_all_iff)

lemma str_nat_hd_not_sign: "hd (str_nat n) \<noteq> CHR ''-'' \<and> hd (str_nat n) \<noteq> CHR ''+''"
  using str_nat_hd_last [of n] by (auto simp: is_digit_def)

lemma py_int_py_str: "py_int (py_str i) = Inr i"
proof (cases "i < 0")
  case True
  have "\<not> is_space (CHR ''-'')"
    by (simp add: is_space_def)
  moreover have "\<not> is_space (last (str_nat (nat (- i))))"
    using str_nat_hd_last [of "nat (- i)"] by (simp add: is_digit_not_space)
  ultimately have "strip (CHR ''-'' # str_nat (nat (- i))) = CHR ''-'' # str_nat (nat (- i))"
    using str_nat_not_Nil [of "nat (- i)"] by (intro strip_id) simp_all
  with True show ?thesis
    by (simp add: py_int_def py_str_def parse_nat_str_nat)
next
  case False
  have s: "strip (str_nat (nat i)) = str_nat (nat i)"
    using str_nat_hd_last [of "nat i"] str_nat_not_Nil [of "nat i"]
    by (intro strip_id) (auto simp: is_digit_not_space)
  obtain c cs where cs: "str_nat (nat i) = c # cs"
    using str_nat_not_Nil [of "nat i"] by (cases "str_nat (nat i)") auto
  have "c \<noteq> CHR ''-''" "c \<noteq> CHR ''+''"
    using str_nat_hd_not_sign [of "nat i"] cs by auto
  moreover have "parse_nat (c # cs) = Some (nat i)"
    using parse_nat_str_nat [of "nat i"] cs by simp
  ultimately show ?thesis
    using False s cs by (simp add: py_int_def py_str_def)
qed

text \<open>A separator character before the digits is not stripped: \<open>int\<close> raises.\<close>

lemma py_int_separator:
  "py_int [CHR 0x1C, CHR ''7''] = Inl (invalid_literal [CHR 0x1C, CHR ''7''])"
  by (simp add: py_int_def strip_def is_space_def parse_nat_def is_digit_def)

lemma py_int_spaces: "py_int [CHR 0x09, CHR ''7'', CHR 0x20, CHR 0x0A] = Inr 7"
  by (simp add: py_int_def strip_def is_space_def parse_nat_def is_digit_def digit_val_def)

subsection \<open>The constructor of \<open>CommunicatorWrapper\<close>\<close>

lemma split_chr_not_Nil: "split_chr sep s \<noteq> []"
  by (induction s) (auto split: list.splits)

lemma hd_split_chr: "hd (split_chr sep s) = takeWhile (\<lambda>x. x \<noteq> sep) s"
  by (induction s) (auto split: list.splits simp: split_chr_not_Nil)

lemma index0_Nil: "index0 [] = Inl (IndexError ''list index out of range'')"
  by (simp add: index0_def)

lemma index0_Cons: "index0 (x # xs) = Inr x"
  by (simp add: index0_def)

lemma index0_split_chr: "index0 (split_chr sep s) = Inr (takeWhile (\<lambda>x. x \<noteq> sep) s)"
  using hd_split_chr [of sep s] split_chr_not_Nil [of sep s]
  by (cases "split_chr sep s") (auto simp: index0_def)

lemma create_float_context_eq:
  "create_float_context e c =
     (case backend c of
        [] \<Rightarrow> Inl (IndexError ''list index out of range'')
      | b # bs \<Rightarrow>
          Inr (get_extension_context e (VStr (takeWhile (\<lambda>x. x \<noteq> CHR '':'') b))
                 (Some (VStr (device_id c))) None))"
  by (cases "backend c")
     (simp_all add: create_float_context_def index0_split_chr index0_Nil index0_Cons)

text \<open>What a constructor call that returns has done.\<close>

lemma init_Inr:
  assumes "CommunicatorWrapper_init e c = (Inr w, evs)"
  shows "\<exists>d cf. py_int (device_id c) = Inr d
           \<and> create_float_context e (c\<lparr>device_id := py_str (d + local_rank w)\<rparr>) = Inr cf
           \<and> ctx w = c\<lparr>device_id := py_str (d + local_rank w)\<rparr>
           \<and> ctx_float w = cf
           \<and> (case connect e c of
                 Inl x \<Rightarrow> n_procs w = 1 \<and> rank w = 0 \<and> local_rank w = 0 \<and> comm w = None
               | Inr cm \<Rightarrow> n_procs w = comm_size cm \<and> rank w = comm_rank cm
                           \<and> local_rank w = comm_local_rank cm \<and> comm w = Some cm)"
  using assms
  by (auto simp: CommunicatorWrapper_init_def try_communicator_def Let_def
           split: sum.splits prod.splits)

lemma init_comm_None:
  assumes "CommunicatorWrapper_init e c = (Inr w, evs)" and "comm w = None"
  shows "n_procs w = 1 \<and> rank w = 0 \<and> local_rank w = 0"
  using init_Inr [OF assms(1)] assms(2) by (auto split: sum.splits)

lemma init_total:
  assumes "py_int (device_id c) = Inr d" and "backend c \<noteq> []"
  shows "\<exists>w evs. CommunicatorWrapper_init e c = (Inr w, evs)"
  using assms
  by (cases "backend c")
     (auto simp: CommunicatorWrapper_init_def try_communicator_def Let_def create_float_context_eq
           split: sum.splits prod.splits)

lemma py_int_ctx_gpu: "py_int (device_id ctx_gpu) = Inr 0"
  by (simp add: ctx_gpu_def py_int_def strip_def is_space_def parse_nat_def is_digit_def
        digit_val_def)

lemma connect_env_single: "connect env_single c = Inl (RuntimeError ''MPI is not available'')"
  by (simp add: connect_def env_single_def)

lemma connect_env_multi: "connect env_multi c = Inr comm_rank2"
  by (simp add: connect_def env_multi_def)

text \<open>
  C1 as stated fails: with no multi-process runtime and a context whose device id is the
  empty string, the fallback assignments are made, and then \<open>int(ctx.device_id)\<close> raises
  \<open>ValueError\<close>, so the constructor does not complete.
\<close>

theorem init_raises_on_non_integer_device_id:
  "connect env_single ctx_no_device = Inl (RuntimeError ''MPI is not available'')
   \<and> fst (CommunicatorWrapper_init env_single ctx_no_device) = Inl (invalid_literal [])"
  by (simp add: connect_def env_single_def ctx_no_device_def CommunicatorWrapper_init_def
        try_communicator_def py_int_def strip_def)

text \<open>
  C1, amended: for every device context whose device id reads as an integer and whose
  backend list is not empty, the constructor completes, \<open>get_extension_context\<close> being
  taken to return. If constructing or initialising
  the communicator raised, the wrapper is in single-process mode: \<open>n_procs = 1\<close>,
  \<open>rank = 0\<close>, \<open>local_rank = 0\<close> and \<open>comm = None\<close>. Otherwise \<open>n_procs\<close>, \<open>rank\<close> and
  \<open>local_rank\<close> are the communicator's size, rank and local rank, and \<open>comm\<close> is the
  communicator.
\<close>

theorem init_fallback_or_communicator:
  assumes "py_int (device_id c) = Inr d" and "backend c \<noteq> []"
  shows "\<exists>w evs. CommunicatorWrapper_init e c = (Inr w, evs)
           \<and> (case connect e c of
                 Inl x \<Rightarrow> n_procs w = 1 \<and> rank w = 0 \<and> local_rank w = 0 \<and> comm w = None
               | Inr cm \<Rightarrow> n_procs w = comm_size cm \<and> rank w = comm_rank cm
                           \<and> local_rank w = comm_local_rank cm \<and> comm w = Some cm)"
proof -
  obtain w evs where init: "CommunicatorWrapper_init e c = (Inr w, evs)"
    using init_total [OF assms] by blast
  from init_Inr [OF init] show ?thesis
    using init by blast
qed

text \<open>
  The theorem at the GPU context with device id \<open>0\<close>: single-process mode where the
  runtime is missing, and rank 2 of 4 where it is there.
\<close>

theorem init_fallback_or_communicator_witness:
  "py_int (device_id ctx_gpu) = Inr 0 \<and> backend ctx_gpu \<noteq> []
   \<and> (\<exists>w evs. CommunicatorWrapper_init env_single ctx_gpu = (Inr w, evs)
         \<and> n_procs w = 1 \<and> rank w = 0 \<and> local_rank w = 0 \<and> comm w = None)
   \<and> (\<exists>w evs. CommunicatorWrapper_init env_multi ctx_gpu = (Inr w, evs)
         \<and> n_procs w = 4 \<and> rank w = 2 \<and> local_rank w = 2 \<and> comm w = Some comm_rank2)"
proof -
  have b: "backend ctx_gpu \<noteq> []"
    by (simp add: ctx_gpu_def)
  show ?thesis
    using py_int_ctx_gpu b
      init_fallback_or_communicator [OF py_int_ctx_gpu b, of env_single]
      init_fallback_or_communicator [OF py_int_ctx_gpu b, of env_multi]
    by (simp add: connect_env_single connect_env_multi comm_rank2_def)
qed

text \<open>The constructor on the example inputs.\<close>

lemma py_str_0: "py_str 0 = ''0''"
  by (simp add: py_str_def str_nat.simps digit_char_def)

lemma py_str_2: "py_str 2 = ''2''"
  by (simp add: py_str_def str_nat.simps digit_char_def)

lemma init_eq:
  assumes "py_int (device_id c) = Inr d" and "backend c = b # bs"
  shows "CommunicatorWrapper_init e c =
     (case connect e c of
        Inr cm \<Rightarrow>
          (Inr \<lparr>n_procs = comm_size cm, rank = comm_rank cm, local_rank = comm_local_rank cm,
                comm = Some cm,
                ctx = c\<lparr>device_id := py_str (d + comm_local_rank cm)\<rparr>,
                ctx_float =
                  get_extension_context e (VStr (takeWhile (\<lambda>x. x \<noteq> CHR '':'') b))
                    (Some (VStr (py_str (d + comm_local_rank cm)))) None\<rparr>,
           [LoggerInfo (using_gpu_message (py_str (d + comm_local_rank cm)) (comm_rank cm))])
      | Inl x \<Rightarrow>
          (Inr \<lparr>n_procs = 1, rank = 0, local_rank = 0, comm = None,
                ctx = c\<lparr>device_id := py_str d\<rparr>,
                ctx_float =
                  get_extension_context e (VStr (takeWhile (\<lambda>x. x \<noteq> CHR '':'') b))
                    (Some (VStr (py_str d))) None\<rparr>,
           [Print (exn_message x), Print no_communicator_message,
            LoggerInfo (using_gpu_message (py_str d) 0)]))"
  using assms
  by (simp add: CommunicatorWrapper_init_def try_communicator_def create_float_context_eq
        Let_def split: sum.splits)

lemma backend_ctx_gpu: "backend ctx_gpu = ''cudnn:float'' # [''cuda:float'']"
  by (simp add: ctx_gpu_def)

lemma example_context_cudnn:
  "example_context (VStr ''cudnn'') (Some (VStr dev)) None =
     \<lparr>backend = [''cudnn:float''], array_class = ''CudaCachedArray'', device_id = dev\<rparr>"
  by (simp add: example_context_def str_of_def)

lemma init_env_multi:
  "CommunicatorWrapper_init env_multi ctx_gpu =
     (Inr \<lparr>n_procs = 4, rank = 2, local_rank = 2, comm = Some comm_rank2,
           ctx = ctx_gpu\<lparr>device_id := ''2''\<rparr>,
           ctx_float = \<lparr>backend = [''cudnn:float''], array_class = ''CudaCachedArray'',
                        device_id = ''2''\<rparr>\<rparr>,
      [LoggerInfo ''[Communicator] Using gpu_id = 2 as rank = 2''])"
proof -
  have g: "get_extension_context env_multi = example_context"
    by (simp add: env_multi_def)
  have r: "comm_size comm_rank2 = 4 \<and> comm_rank comm_rank2 = 2 \<and> comm_local_rank comm_rank2 = 2"
    by (simp add: comm_rank2_def)
  show ?thesis
    by (simp add: init_eq [OF py_int_ctx_gpu backend_ctx_gpu] connect_env_multi g r py_str_2
          example_context_cudnn using_gpu_message_def)
qed

lemma init_env_single:
  "CommunicatorWrapper_init env_single ctx_gpu =
     (Inr \<lparr>n_procs = 1, rank = 0, local_rank = 0, comm = None,
           ctx = ctx_gpu,
           ctx_float = \<lparr>backend = [''cudnn:float''], array_class = ''CudaCachedArray'',
                        device_id = ''0''\<rparr>\<rparr>,
      [Print ''MPI is not available'', Print no_communicator_message,
       LoggerInfo ''[Communicator] Using gpu_id = 0 as rank = 0''])"
proof -
  have g: "get_extension_context env_single = example_context"
    by (simp add: env_single_def)
  have c: "ctx_gpu\<lparr>device_id := ''0''\<rparr> = ctx_gpu"
    by (simp add: ctx_gpu_def)
  show ?thesis
    by (simp add: init_eq [OF py_int_ctx_gpu backend_ctx_gpu] connect_env_single g py_str_0
          example_context_cudnn using_gpu_message_def c)
qed

subsection \<open>The methods of \<open>CommunicatorWrapper\<close>\<close>

text \<open>
  C2: on a wrapper that the constructor returned, \<open>all_reduce\<close> returns at once with no
  event, so without a call to the communicator and with nothing done to \<open>params\<close>, when
  \<open>n_procs = 1\<close>; otherwise its only event is one call of the communicator's
  \<open>all_reduce\<close> with that list and those \<open>division\<close> and \<open>inplace\<close> flags.
\<close>

theorem all_reduce_skips_or_forwards_once:
  assumes "CommunicatorWrapper_init e c = (Inr w, evs)"
  shows "(n_procs w = 1 \<longrightarrow> all_reduce w params division inplace = (Inr (), []))
       \<and> (n_procs w \<noteq> 1 \<longrightarrow>
            (\<exists>cm. comm w = Some cm
               \<and> all_reduce w params division inplace
                   = (Inr (), [CommAllReduce cm params division inplace])))"
  using init_comm_None [OF assms]
  by (cases "comm w") (auto simp: all_reduce_def)

text \<open>The theorem in single-process mode and at rank 2 of 4.\<close>

theorem all_reduce_skips_or_forwards_once_witness:
  "(\<exists>w evs. CommunicatorWrapper_init env_single ctx_gpu = (Inr w, evs) \<and> n_procs w = 1
       \<and> all_reduce w [NdArray 1, NdArray 3] False True = (Inr (), []))
   \<and> (\<exists>w evs. CommunicatorWrapper_init env_multi ctx_gpu = (Inr w, evs) \<and> n_procs w \<noteq> 1
       \<and> all_reduce w [NdArray 1, NdArray 3] False True
           = (Inr (), [CommAllReduce comm_rank2 [NdArray 1, NdArray 3] False True]))"
  using all_reduce_skips_or_forwards_once [OF init_env_single, of "[NdArray 1, NdArray 3]" False True]
        all_reduce_skips_or_forwards_once [OF init_env_multi, of "[NdArray 1, NdArray 3]" False True]
  by (simp add: init_env_single init_env_multi)

text \<open>
  C3: on a wrapper that the constructor returned, \<open>all_reduced_solver_update\<close> first, when
  \<open>n_procs > 1\<close>, all-reduces the list of the \<open>grad\<close> of every value of
  \<open>solver.get_parameters()\<close> with the given \<open>division\<close> (default \<open>False\<close>) and \<open>inplace\<close>
  (default \<open>True\<close>) flags, and then calls \<open>solver.update()\<close> exactly once, also in the
  single-process case where it all-reduces nothing.
\<close>

theorem solver_update_after_all_reduce:
  assumes "CommunicatorWrapper_init e c = (Inr w, evs)"
  shows "(n_procs w > 1 \<longrightarrow>
            (\<exists>cm. comm w = Some cm
               \<and> all_reduced_solver_update w s division inplace
                   = (Inr (),
                      [CommAllReduce cm (map grad (map snd (get_parameters s)))
                         (or_default False division) (or_default True inplace),
                       SolverUpdate s])))
       \<and> (\<not> n_procs w > 1 \<longrightarrow>
            all_reduced_solver_update w s division inplace = (Inr (), [SolverUpdate s]))"
  using init_comm_None [OF assms]
  by (cases "comm w") (auto simp: all_reduced_solver_update_def all_reduce_def dict_values_def)

text \<open>The theorem on a solver with two parameters, both flags left to their defaults.\<close>

theorem solver_update_after_all_reduce_witness:
  "(\<exists>w evs. CommunicatorWrapper_init env_single ctx_gpu = (Inr w, evs) \<and> \<not> n_procs w > 1
       \<and> all_reduced_solver_update w example_solver None None
           = (Inr (), [SolverUpdate example_solver]))
   \<and> (\<exists>w evs. CommunicatorWrapper_init env_multi ctx_gpu = (Inr w, evs) \<and> n_procs w > 1
       \<and> all_reduced_solver_update w example_solver None None
           = (Inr (), [CommAllReduce comm_rank2 [NdArray 1, NdArray 3] False True,
                       SolverUpdate example_solver]))"
  using solver_update_after_all_reduce [OF init_env_single, of example_solver None None]
        solver_update_after_all_reduce [OF init_env_multi, of example_solver None None]
  by (simp add: init_env_single init_env_multi or_default_def get_parameters_def
        example_solver_def example_variables_def)

subsection \<open>The device id after the constructor\<close>

text \<open>
  C4: after the constructor, the device id of the stored context is the decimal string of
  the integer read from the original device id plus \<open>local_rank\<close>; when \<open>local_rank\<close> is 0,
  as it is in the single-process fallback, the device id reads as the same integer as
  before.
\<close>

theorem init_device_id_plus_local_rank:
  assumes "CommunicatorWrapper_init e c = (Inr w, evs)"
  shows "\<exists>d. py_int (device_id c) = Inr d
           \<and> device_id (ctx w) = py_str (d + local_rank w)
           \<and> (local_rank w = 0 \<longrightarrow> py_int (device_id (ctx w)) = py_int (device_id c))
           \<and> (comm w = None \<longrightarrow> py_int (device_id (ctx w)) = py_int (device_id c))"
proof -
  from init_Inr [OF assms] obtain d where
    d: "py_int (device_id c) = Inr d" and
    c: "ctx w = c\<lparr>device_id := py_str (d + local_rank w)\<rparr>"
    by blast
  have "local_rank w = 0 \<Longrightarrow> py_int (device_id (ctx w)) = py_int (device_id c)"
    using d c by (simp add: py_int_py_str)
  with d c init_comm_None [OF assms] show ?thesis
    by auto
qed

text \<open>The theorem at local rank 2, where device \<open>0\<close> becomes \<open>2\<close>, and in the fallback.\<close>

theorem init_device_id_plus_local_rank_witness:
  "(\<exists>w evs. CommunicatorWrapper_init env_multi ctx_gpu = (Inr w, evs)
       \<and> py_int (device_id ctx_gpu) = Inr 0 \<and> local_rank w = 2 \<and> device_id (ctx w) = ''2'')
   \<and> (\<exists>w evs. CommunicatorWrapper_init env_single ctx_gpu = (Inr w, evs)
       \<and> comm w = None \<and> local_rank w = 0 \<and> py_int (device_id (ctx w)) = Inr 0)"
  using init_device_id_plus_local_rank [OF init_env_multi]
        init_device_id_plus_local_rank [OF init_env_single]
  by (simp add: init_env_single init_env_multi py_int_ctx_gpu py_int_py_str)

subsection \<open>The all-reduce callback\<close>

lemma default_packing_size_value: "default_packing_size = 2097152"
  by (simp add: default_packing_size_def)

text \<open>
  C5: on a wrapper that the constructor returned, with at least one process,
  \<open>get_all_reduce_callback\<close> returns \<open>None\<close> if and only if \<open>n_procs = 1\<close>; otherwise it
  returns what the communicator's \<open>all_reduce_callback\<close> gives for the list of the \<open>grad\<close>
  of every globally registered parameter and \<open>packing_size\<close>, which is \<open>2 << 20 = 2097152\<close>
  when left out.
\<close>

theorem callback_None_iff_single_process:
  assumes "CommunicatorWrapper_init e c = (Inr w, evs)" and "1 \<le> n_procs w"
  shows "(get_all_reduce_callback e w packing_size = Inr None) = (n_procs w = 1)
       \<and> (n_procs w \<noteq> 1 \<longrightarrow>
            (\<exists>cm. comm w = Some cm
               \<and> get_all_reduce_callback e w packing_size
                   = Inr (Some (all_reduce_callback e cm
                                  (map grad (map snd (nn_get_parameters e)))
                                  (or_default 2097152 packing_size)))))"
  using init_comm_None [OF assms(1)] assms(2)
  by (cases "comm w")
     (auto simp: get_all_reduce_callback_def dict_values_def default_packing_size_value)

text \<open>The theorem in single-process mode and at rank 2 of 4, \<open>packing_size\<close> left out.\<close>

theorem callback_None_iff_single_process_witness:
  "(\<exists>w evs. CommunicatorWrapper_init env_single ctx_gpu = (Inr w, evs) \<and> 1 \<le> n_procs w
       \<and> n_procs w = 1 \<and> get_all_reduce_callback env_single w None = Inr None)
   \<and> (\<exists>w evs. CommunicatorWrapper_init env_multi ctx_gpu = (Inr w, evs) \<and> 1 \<le> n_procs w
       \<and> n_procs w \<noteq> 1
       \<and> get_all_reduce_callback env_multi w None
           = Inr (Some (all_reduce_callback env_multi comm_rank2 [NdArray 1, NdArray 3] 2097152))
       \<and> get_all_reduce_callback env_multi w None = Inr (Some (Callback 2097152)))"
proof -
  have p: "nn_get_parameters env_multi = example_variables"
    by (simp add: env_multi_def)
  have a: "all_reduce_callback env_multi cm ps 2097152 = Callback 2097152" for cm ps
    by (simp add: env_multi_def)
  have s: "(1::int) \<le> n_procs \<lparr>n_procs = 1, rank = 0, local_rank = 0, comm = None,
           ctx = ctx_gpu,
           ctx_float = \<lparr>backend = [''cudnn:float''], array_class = ''CudaCachedArray'',
                        device_id = ''0''\<rparr>\<rparr>"
    by simp
  have m: "(1::int) \<le> n_procs \<lparr>n_procs = 4, rank = 2, local_rank = 2, comm = Some comm_rank2,
           ctx = ctx_gpu\<lparr>device_id := ''2''\<rparr>,
           ctx_float = \<lparr>backend = [''cudnn:float''], array_class = ''CudaCachedArray'',
                        device_id = ''2''\<rparr>\<rparr>"
    by simp
  show ?thesis
    using callback_None_iff_single_process [OF init_env_single s, of None]
          callback_None_iff_single_process [OF init_env_multi m, of None]
    by (simp add: init_env_single init_env_multi or_default_def p a example_variables_def)
qed

subsection \<open>The loop over the solvers\<close>

lemma after_Inr_Nil: "after (Inr (), []) b = b"
  by (simp add: after_def)

lemma after_Nil_Inr: "after a (Inr (), []) = a"
  by (cases a) (auto simp: after_def split: sum.splits)

lemma after_assoc: "after (after a b) c = after a (after b c)"
  by (cases a; cases b) (auto simp: after_def split: sum.splits)

lemma solvers_loop_Cons:
  "solvers_loop w (s # ss) d i =
     after (all_reduced_solver_update w s (Some d) (Some i)) (solvers_loop w ss d i)"
  by (auto simp: after_def split: prod.splits sum.splits)

lemma foldl_after_solvers_loop:
  "foldl (\<lambda>done s. after done (all_reduced_solver_update w s (Some d) (Some i))) acc ss
     = after acc (solvers_loop w ss d i)"
proof (induction ss arbitrary: acc)
  case Nil
  show ?case by (simp add: after_Nil_Inr)
next
  case (Cons s ss)
  show ?case
    by (simp only: foldl_Cons Cons.IH solvers_loop_Cons after_assoc)
qed

text \<open>
  C6: for every list of solvers and every choice of flags,
  \<open>all_reduced_solver_update_all\<close> is \<open>all_reduced_solver_update\<close> applied to each solver, one
  at a time, in the order given, every time with the same \<open>division\<close> and \<open>inplace\<close> flags.
\<close>

theorem update_all_is_one_at_a_time:
  "all_reduced_solver_update_all w solvers division inplace
     = one_at_a_time w solvers (or_default False division) (or_default True inplace)"
  by (simp add: all_reduced_solver_update_all_def one_at_a_time_def foldl_after_solvers_loop
        after_Inr_Nil)

subsection \<open>The float context\<close>

text \<open>
  C7: after the constructor, \<open>ctx_float\<close> is the extension context for the first entry of the
  stored context's backend list, cut at its first colon, and the device id of that
  context, which is the device id after \<open>local_rank\<close> has been added.
\<close>

theorem init_ctx_float_from_first_backend:
  assumes "CommunicatorWrapper_init e c = (Inr w, evs)"
  shows "\<exists>b bs d. backend (ctx w) = b # bs
           \<and> py_int (device_id c) = Inr d
           \<and> device_id (ctx w) = py_str (d + local_rank w)
           \<and> ctx_float w =
               get_extension_context e (VStr (takeWhile (\<lambda>x. x \<noteq> CHR '':'') b))
                 (Some (VStr (device_id (ctx w)))) None"
proof -
  from init_Inr [OF assms] obtain d cf where
    d: "py_int (device_id c) = Inr d" and
    f: "create_float_context e (c\<lparr>device_id := py_str (d + local_rank w)\<rparr>) = Inr cf" and
    c: "ctx w = c\<lparr>device_id := py_str (d + local_rank w)\<rparr>" and
    cf: "ctx_float w = cf"
    by blast
  from f c obtain b bs where b: "backend (ctx w) = b # bs"
    by (cases "backend c") (auto simp: create_float_context_eq)
  with f c cf have "ctx_float w =
      get_extension_context e (VStr (takeWhile (\<lambda>x. x \<noteq> CHR '':'') b))
        (Some (VStr (device_id (ctx w)))) None"
    by (auto simp: create_float_context_eq)
  with b d c show ?thesis
    by simp
qed

text \<open>The theorem at rank 2 of 4: \<open>cudnn:float\<close> gives \<open>cudnn\<close>, on device \<open>2\<close>.\<close>

theorem init_ctx_float_from_first_backend_witness:
  "\<exists>w evs. CommunicatorWrapper_init env_multi ctx_gpu = (Inr w, evs)
       \<and> backend (ctx w) = [''cudnn:float'', ''cuda:float'']
       \<and> device_id (ctx w) = ''2''
       \<and> ctx_float w = get_extension_context env_multi (VStr ''cudnn'') (Some (VStr ''2'')) None"
proof -
  have b: "backend (ctx_gpu\<lparr>device_id := ''2''\<rparr>) = [''cudnn:float'', ''cuda:float'']"
    by (simp add: ctx_gpu_def)
  have t: "takeWhile (\<lambda>x. x \<noteq> CHR '':'') ''cudnn:float'' = ''cudnn''"
    by simp
  show ?thesis
    using init_ctx_float_from_first_backend [OF init_env_multi]
    by (auto simp: init_env_multi b t)
qed

subsection \<open>Attribute access on an \<open>AttrDict\<close>\<close>

lemma map_of_dict_setitem: "map_of (dict_setitem kvs k v) = (map_of kvs)(k \<mapsto> v)"
  by (induction kvs) (auto simp: fun_eq_iff)

lemma keys_dict_setitem:
  "map_of kvs k = Some v0 \<Longrightarrow> map fst (dict_setitem kvs k v) = map fst kvs"
  by (induction kvs) (auto split: if_splits)

lemma store_get_Some: "store_get h a = Some d \<longleftrightarrow> a < length h \<and> h ! a = d"
  by (auto simp: store_get_def)

lemma getattr_missing:
  assumes "store_get h a = Some d" and "map_of (items d) k = None" and "get_parent d = VPath p"
  shows "AttrDict_getattr h a k = (Inl (AttributeError (no_chain_message (p @ [k]))), h)"
  using assms by (simp add: AttrDict_getattr_def parent_plus_key_def)

lemma getattr_plain_value:
  assumes "store_get h a = Some d" and "map_of (items d) k = Some v" and "dict_of h v = None"
  shows "AttrDict_getattr h a k = (Inr v, h)"
  using assms by (simp add: AttrDict_getattr_def)

lemma getattr_wraps:
  assumes "store_get h a = Some d" and "map_of (items d) k = Some v"
    and "dict_of h v = Some src" and "get_parent d = VPath p"
  shows "AttrDict_getattr h a k =
           (Inr (VRef (length h)),
            h[a := d\<lparr>items := dict_setitem (items d) k (VRef (length h))\<rparr>]
              @ [\<lparr>klass = AttrDictClass, own_parent = Some (VPath (p @ [k])), items = items src\<rparr>])"
proof -
  have a: "a < length h"
    using assms(1) by (simp add: store_get_Some)
  let ?new = "\<lparr>klass = AttrDictClass, own_parent = None, items = items src\<rparr>"
  let ?h2 = "(h @ [?new])[a := d\<lparr>items := dict_setitem (items d) k (VRef (length h))\<rparr>]"
  have h2: "?h2 = h[a := d\<lparr>items := dict_setitem (items d) k (VRef (length h))\<rparr>] @ [?new]"
    using a by (simp add: list_update_append1)
  have set: "AttrDict_setattr ?h2 (length h) ''_parent'' (VPath (p @ [k])) =
      (Inr (), h[a := d\<lparr>items := dict_setitem (items d) k (VRef (length h))\<rparr>]
                @ [?new\<lparr>own_parent := Some (VPath (p @ [k]))\<rparr>])"
    unfolding h2 by (simp add: AttrDict_setattr_def store_get_def nth_append list_update_append)
  show ?thesis
    using assms set by (simp add: AttrDict_getattr_def parent_plus_key_def Let_def)
qed

lemma py_getattr_AttrDict:
  assumes "store_get h a = Some d" and "klass d = AttrDictClass"
    and "k \<notin> set AttrDict_class_attrs" and "k \<notin> set (dict_attrs e)"
  shows "py_getattr e h a k = AttrDict_getattr h a k"
  using assms by (auto simp: py_getattr_def AttrDict_class_attrs_def)

text \<open>
  The names of the class are answered by ordinary lookup, whether or not they are keys,
  and the store stays as it was.
\<close>

lemma py_getattr_class_attr:
  assumes "store_get h a = Some d" and "klass d = AttrDictClass"
    and "k \<in> set AttrDict_class_attrs" and "k \<noteq> ''_parent''"
  shows "py_getattr e h a k = (Inr (VAttr a k), h)"
  using assms by (simp add: py_getattr_def)

lemma class_statement_names:
  "''__dict__'' \<in> set AttrDict_class_attrs" "''__module__'' \<in> set AttrDict_class_attrs"
  "''__weakref__'' \<in> set AttrDict_class_attrs"
  by (simp_all add: AttrDict_class_attrs_def)

lemma store_get_example_conf: "store_get example_store 0 = Some example_conf"
  by (simp add: store_get_def example_store_def)

lemma store_get_example_model: "store_get example_store 1 = Some example_model"
  by (simp add: store_get_def example_store_def)

lemma example_conf_facts:
  "klass example_conf = AttrDictClass" "get_parent example_conf = VPath []"
  "map_of (items example_conf) ''model'' = Some (VRef 1)"
  "map_of (items example_conf) ''epochs'' = Some (VInt 3)"
  "map_of (items example_conf) ''lr'' = None"
  "map_of (items example_conf) ''dump_to_stdout'' = None"
  by (simp_all add: example_conf_def get_parent_def class_parent_def)

lemma names_not_class_attrs:
  "''model'' \<notin> set AttrDict_class_attrs" "''epochs'' \<notin> set AttrDict_class_attrs"
  "''lr'' \<notin> set AttrDict_class_attrs"
  "''model'' \<notin> set (dict_attrs env_single)" "''epochs'' \<notin> set (dict_attrs env_single)"
  "''lr'' \<notin> set (dict_attrs env_single)"
  by (simp_all add: AttrDict_class_attrs_def env_single_def)

text \<open>
  C8 as stated fails: \<open>dump_to_stdout\<close> is no key of the example configuration, yet reading
  it as an attribute raises nothing. Ordinary lookup finds the method of the class, and
  \<open>__getattr__\<close> is not asked; the store is left as it was.
\<close>

theorem getattr_class_attribute_shadows:
  "map_of (items example_conf) ''dump_to_stdout'' = None
   \<and> py_getattr env_single example_store 0 ''dump_to_stdout''
       = (Inr (VAttr 0 ''dump_to_stdout''), example_store)"
  by (simp add: py_getattr_def store_get_example_conf example_conf_facts
        AttrDict_class_attrs_def)

text \<open>
  C8, amended: for every \<open>AttrDict\<close> \<open>d\<close> whose \<open>_parent\<close> is a path, and every attribute name
  \<open>k\<close> that ordinary lookup does not resolve (so not \<open>_parent\<close>, not a name the class body
  defines, not \<open>__dict__\<close>, \<open>__module__\<close> or \<open>__weakref__\<close>, and not an attribute of \<open>dict\<close>),
  reading \<open>d.k\<close> raises \<open>AttributeError\<close> if and only
  if \<open>k\<close> is no key of \<open>d\<close>, and the message holds the \<open>_parent\<close> path followed by \<open>k\<close>,
  joined by dots; when \<open>k\<close> is a key, the read raises nothing and returns the value that
  \<open>d\<close> then holds under \<open>k\<close>, which is the value held before unless that was a dictionary.
\<close>

theorem getattr_raises_iff_missing:
  assumes "store_get h a = Some d" and "klass d = AttrDictClass" and "get_parent d = VPath p"
    and "k \<notin> set AttrDict_class_attrs" and "k \<notin> set (dict_attrs e)"
  shows "(case map_of (items d) k of
            None \<Rightarrow>
              py_getattr e h a k =
                (Inl (AttributeError
                        (''dict (AttrDict) has no chain of attributes '' @ [CHR 0x27]
                           @ join ''.'' (p @ [k]) @ [CHR 0x27])), h)
          | Some v \<Rightarrow>
              (\<exists>v' h' d'. py_getattr e h a k = (Inr v', h')
                  \<and> store_get h' a = Some d' \<and> map_of (items d') k = Some v'
                  \<and> (dict_of h v = None \<longrightarrow> v' = v \<and> h' = h)))"
proof (cases "map_of (items d) k")
  case None
  with assms show ?thesis
    by (simp add: py_getattr_AttrDict getattr_missing no_chain_message_def)
next
  case (Some v)
  show ?thesis
  proof (cases "dict_of h v")
    case None
    with Some assms show ?thesis
      by (simp add: py_getattr_AttrDict getattr_plain_value)
  next
    case (Some src)
    have a: "a < length h"
      using assms(1) by (simp add: store_get_Some)
    from \<open>map_of (items d) k = Some v\<close> Some assms a show ?thesis
      by (simp add: py_getattr_AttrDict getattr_wraps store_get_def nth_append
            map_of_dict_setitem)
  qed
qed

text \<open>The theorem on the example configuration: \<open>lr\<close> is missing, \<open>epochs\<close> is 3.\<close>

theorem getattr_raises_iff_missing_witness:
  "store_get example_store 0 = Some example_conf \<and> klass example_conf = AttrDictClass
   \<and> get_parent example_conf = VPath []
   \<and> map_of (items example_conf) ''lr'' = None
   \<and> py_getattr env_single example_store 0 ''lr''
       = (Inl (AttributeError (''dict (AttrDict) has no chain of attributes '' @ [CHR 0x27]
             @ ''lr'' @ [CHR 0x27])), example_store)
   \<and> map_of (items example_conf) ''epochs'' = Some (VInt 3)
   \<and> py_getattr env_single example_store 0 ''epochs'' = (Inr (VInt 3), example_store)"
  using getattr_raises_iff_missing [OF store_get_example_conf example_conf_facts(1,2)
           names_not_class_attrs(3) names_not_class_attrs(6)]
        getattr_raises_iff_missing [OF store_get_example_conf example_conf_facts(1,2)
           names_not_class_attrs(2) names_not_class_attrs(5)]
  by (auto simp: store_get_example_conf example_conf_facts dict_of_def)

text \<open>
  C9 as stated fails: the first read of \<open>model\<close> returns the new object at address 2, and
  the read after it returns another new object, at address 3, not the one converted
  before. An \<open>AttrDict\<close> is a \<open>dict\<close> too, so every read wraps again.
\<close>

theorem getattr_second_read_new_object:
  "fst (py_getattr env_single example_store 0 ''model'') = Inr (VRef 2)
   \<and> fst (py_getattr env_single (snd (py_getattr env_single example_store 0 ''model'')) 0
           ''model'') = Inr (VRef 3)"
proof -
  have d: "dict_of example_store (VRef 1) = Some example_model"
    by (simp add: dict_of_def store_get_def example_store_def)
  have first: "py_getattr env_single example_store 0 ''model'' =
      (Inr (VRef 2),
       [example_conf\<lparr>items := [(''model'', VRef 2), (''epochs'', VInt 3)]\<rparr>, example_model,
        \<lparr>klass = AttrDictClass, own_parent = Some (VPath [''model'']),
         items = items example_model\<rparr>])"
    using getattr_wraps [OF store_get_example_conf example_conf_facts(3) d example_conf_facts(2)]
    by (simp add: py_getattr_AttrDict [OF store_get_example_conf example_conf_facts(1)
            names_not_class_attrs(1) names_not_class_attrs(4)])
       (simp add: example_store_def example_conf_def)
  let ?h1 = "[example_conf\<lparr>items := [(''model'', VRef 2), (''epochs'', VInt 3)]\<rparr>, example_model,
        \<lparr>klass = AttrDictClass, own_parent = Some (VPath [''model'']),
         items = items example_model\<rparr>]"
  let ?d1 = "example_conf\<lparr>items := [(''model'', VRef 2), (''epochs'', VInt 3)]\<rparr>"
  have g: "store_get ?h1 0 = Some ?d1"
    by (simp add: store_get_def)
  have k: "klass ?d1 = AttrDictClass" and p: "get_parent ?d1 = VPath []"
    and m: "map_of (items ?d1) ''model'' = Some (VRef 2)"
    by (simp_all add: example_conf_def get_parent_def class_parent_def)
  have d2: "dict_of ?h1 (VRef 2) = Some \<lparr>klass = AttrDictClass,
      own_parent = Some (VPath [''model'']), items = items example_model\<rparr>"
    by (simp add: dict_of_def store_get_def)
  have second: "fst (py_getattr env_single ?h1 0 ''model'') = Inr (VRef 3)"
    using getattr_wraps [OF g m d2 p]
    by (simp add: py_getattr_AttrDict [OF g k names_not_class_attrs(1) names_not_class_attrs(4)])
  show ?thesis
    using second by (simp add: first)
qed

text \<open>
  C9, amended: for every \<open>AttrDict\<close> \<open>d\<close> whose \<open>_parent\<close> is a path and every key \<open>k\<close> of \<open>d\<close>
  that ordinary lookup does not resolve and whose value is a plain dictionary, reading
  \<open>d.k\<close> creates an \<open>AttrDict\<close> with the entries of that dictionary and the \<open>_parent\<close> path of
  \<open>d\<close> extended with \<open>k\<close>, and stores it under \<open>k\<close> in \<open>d\<close> itself; the other keys of \<open>d\<close>, the
  order of its keys and every other object stay as they were. A read of \<open>d.k\<close> after that
  returns a further new \<open>AttrDict\<close> with the same entries and \<open>_parent\<close> path, stored under \<open>k\<close>
  in place of the first.
\<close>

theorem getattr_wraps_plain_dict:
  assumes "store_get h a = Some d" and "klass d = AttrDictClass" and "get_parent d = VPath p"
    and "k \<notin> set AttrDict_class_attrs" and "k \<notin> set (dict_attrs e)"
    and "map_of (items d) k = Some (VRef b)" and "store_get h b = Some src"
    and "klass src = PlainDict"
  shows "\<exists>h1 h2. py_getattr e h a k = (Inr (VRef (length h)), h1)
           \<and> length h1 = Suc (length h)
           \<and> h1 ! length h
               = \<lparr>klass = AttrDictClass, own_parent = Some (VPath (p @ [k])), items = items src\<rparr>
           \<and> klass (h1 ! a) = AttrDictClass \<and> get_parent (h1 ! a) = VPath p
           \<and> map_of (items (h1 ! a)) = (map_of (items d))(k \<mapsto> VRef (length h))
           \<and> map fst (items (h1 ! a)) = map fst (items d)
           \<and> (\<forall>j<length h. j \<noteq> a \<longrightarrow> h1 ! j = h ! j)
           \<and> py_getattr e h1 a k = (Inr (VRef (Suc (length h))), h2)
           \<and> h2 ! Suc (length h) = h1 ! length h
           \<and> map_of (items (h2 ! a)) k = Some (VRef (Suc (length h)))"
proof -
  let ?n = "length h"
  let ?d1 = "d\<lparr>items := dict_setitem (items d) k (VRef ?n)\<rparr>"
  let ?new = "\<lparr>klass = AttrDictClass, own_parent = Some (VPath (p @ [k])), items = items src\<rparr>"
  let ?h1 = "h[a := ?d1] @ [?new]"
  let ?d2 = "?d1\<lparr>items := dict_setitem (items ?d1) k (VRef (length ?h1))\<rparr>"
  let ?h2 = "?h1[a := ?d2] @ [?new]"
  have a: "a < ?n"
    using assms(1) by (simp add: store_get_Some)
  have src: "dict_of h (VRef b) = Some src"
    using assms(7) by (simp add: dict_of_def)
  have first: "py_getattr e h a k = (Inr (VRef ?n), ?h1)"
    using getattr_wraps [OF assms(1) assms(6) src assms(3)]
    by (simp add: py_getattr_AttrDict [OF assms(1) assms(2) assms(4) assms(5)])
  have g1: "store_get ?h1 a = Some ?d1"
    using a by (simp add: store_get_def nth_append)
  have k1: "klass ?d1 = AttrDictClass"
    using assms(2) by simp
  have p1: "get_parent ?d1 = VPath p"
    using assms(3) by (simp add: get_parent_def)
  have m1: "map_of (items ?d1) k = Some (VRef ?n)"
    by (simp add: map_of_dict_setitem)
  have n1: "dict_of ?h1 (VRef ?n) = Some ?new"
    by (simp add: dict_of_def store_get_def nth_append)
  have second: "py_getattr e ?h1 a k = (Inr (VRef (Suc ?n)), ?h2)"
    using getattr_wraps [OF g1 m1 n1 p1]
    by (simp add: py_getattr_AttrDict [OF g1 k1 assms(4) assms(5)])
  have at_a: "?h1 ! a = ?d1"
    using a by (simp add: nth_append)
  have at_n: "?h1 ! ?n = ?new"
    by (simp add: nth_append)
  have others: "\<forall>j<?n. j \<noteq> a \<longrightarrow> ?h1 ! j = h ! j"
    by (simp add: nth_append)
  have at_n2: "?h2 ! Suc ?n = ?new"
    by (simp add: nth_append)
  have at_a2: "map_of (items (?h2 ! a)) k = Some (VRef (Suc ?n))"
    using a by (simp add: nth_append map_of_dict_setitem)
  have keys: "map fst (items ?d1) = map fst (items d)"
    using keys_dict_setitem [OF assms(6)] by simp
  have maps: "map_of (items ?d1) = (map_of (items d))(k \<mapsto> VRef ?n)"
    by (simp add: map_of_dict_setitem)
  show ?thesis
    apply (rule exI [of _ ?h1])
    apply (rule exI [of _ ?h2])
    using first second k1 p1 keys maps others at_n2 at_a2
    by (simp only: at_a at_n) simp
qed

lemma example_model_facts:
  "klass example_model = PlainDict" "items example_model = [(''depth'', VInt 5)]"
  by (simp_all add: example_model_def)

lemma length_example_store: "length example_store = 2"
  by (simp add: example_store_def)

text \<open>The theorem on the example configuration, whose \<open>model\<close> is a plain dictionary.\<close>

theorem getattr_wraps_plain_dict_witness:
  "store_get example_store 0 = Some example_conf \<and> klass example_conf = AttrDictClass
   \<and> map_of (items example_conf) ''model'' = Some (VRef 1)
   \<and> store_get example_store 1 = Some example_model \<and> klass example_model = PlainDict
   \<and> (\<exists>h1 h2. py_getattr env_single example_store 0 ''model'' = (Inr (VRef 2), h1)
         \<and> h1 ! 2 = \<lparr>klass = AttrDictClass, own_parent = Some (VPath [''model'']),
                      items = [(''depth'', VInt 5)]\<rparr>
         \<and> map_of (items (h1 ! 0)) ''model'' = Some (VRef 2)
         \<and> map_of (items (h1 ! 0)) ''epochs'' = Some (VInt 3)
         \<and> h1 ! 1 = example_model
         \<and> py_getattr env_single h1 0 ''model'' = (Inr (VRef 3), h2)
         \<and> h2 ! 3 = h1 ! 2)"
proof -
  from getattr_wraps_plain_dict [OF store_get_example_conf example_conf_facts(1,2)
      names_not_class_attrs(1) names_not_class_attrs(4) example_conf_facts(3)
      store_get_example_model example_model_facts(1)]
  obtain h1 h2 where
    r1: "py_getattr env_single example_store 0 ''model'' = (Inr (VRef 2), h1)" and
    n1: "h1 ! 2 = \<lparr>klass = AttrDictClass, own_parent = Some (VPath [''model'']),
                    items = [(''depth'', VInt 5)]\<rparr>" and
    m1: "map_of (items (h1 ! 0)) = (map_of (items example_conf))(''model'' \<mapsto> VRef 2)" and
    o1: "\<forall>j<2. j \<noteq> 0 \<longrightarrow> h1 ! j = example_store ! j" and
    r2: "py_getattr env_single h1 0 ''model'' = (Inr (VRef 3), h2)" and
    n2: "h2 ! 3 = h1 ! 2"
    by (auto simp: length_example_store example_model_facts numeral_3_eq_3 numeral_2_eq_2)
  have "h1 ! 1 = example_model"
    using o1 by (simp add: example_store_def)
  moreover have "map_of (items (h1 ! 0)) ''model'' = Some (VRef 2)"
    and "map_of (items (h1 ! 0)) ''epochs'' = Some (VInt 3)"
    by (simp_all add: m1 example_conf_facts)
  ultimately show ?thesis
    using r1 n1 r2 n2 store_get_example_conf store_get_example_model
      example_conf_facts(1,3) example_model_facts(1)
    by blast
qed

subsection \<open>\<open>init_nnabla\<close> and the logger\<close>

lemma set_levels_append: "set_levels (xs @ ys) = set_levels xs @ set_levels ys"
  by (simp add: set_levels_def List.map_filter_def)

lemma init_events_no_set_level:
  assumes "CommunicatorWrapper_init e c = (Inr w, evs)"
  shows "set_levels evs = []"
  using assms
  by (auto simp: CommunicatorWrapper_init_def try_communicator_def Let_def set_levels_def
        List.map_filter_simps split: sum.splits prod.splits)

lemma init_nnabla_Inr:
  assumes "init_nnabla e h conf ext_name dev type_config = (Inr w, h', evs)"
  shows "\<exists>c evs0. CommunicatorWrapper_init e c = (Inr w, evs0)
           \<and> evs = evs0 @ [SetDefaultContext (ctx w)]
                     @ (if rank w > 0 then [LoggerSetLevel logging_ERROR] else [])"
  using assms
  by (auto simp: init_nnabla_def split: prod.splits sum.splits split del: if_split)

text \<open>
  C10: when \<open>init_nnabla\<close> returns, it has set the logger's level, to \<open>logging.ERROR\<close>, if and
  only if the rank of the wrapper it built is greater than 0; at rank 0, and so in the
  single-process fallback, no level is set.
\<close>

theorem init_nnabla_sets_error_level_iff_rank_positive:
  assumes "init_nnabla e h conf ext_name dev type_config = (Inr w, h', evs)"
  shows "set_levels evs = (if rank w > 0 then [logging_ERROR] else [])
       \<and> (LoggerSetLevel logging_ERROR \<in> set evs) = (rank w > 0)
       \<and> (comm w = None \<longrightarrow> rank w = 0 \<and> set_levels evs = [])"
proof -
  from init_nnabla_Inr [OF assms] obtain c evs0 where
    init: "CommunicatorWrapper_init e c = (Inr w, evs0)" and
    evs: "evs = evs0 @ [SetDefaultContext (ctx w)]
                 @ (if rank w > 0 then [LoggerSetLevel logging_ERROR] else [])"
    by blast
  have none: "set_levels evs0 = []"
    using init by (rule init_events_no_set_level)
  have levels: "set_levels evs = (if rank w > 0 then [logging_ERROR] else [])"
    by (simp add: evs set_levels_append none) (simp add: set_levels_def List.map_filter_simps)
  have "LoggerSetLevel l \<notin> set evs0" for l
  proof
    assume "LoggerSetLevel l \<in> set evs0"
    then have "l \<in> set (set_levels evs0)"
      by (force simp: set_levels_def List.map_filter_def)
    with none show False by simp
  qed
  then have mem: "(LoggerSetLevel logging_ERROR \<in> set evs) = (rank w > 0)"
    by (simp add: evs)
  have "comm w = None \<Longrightarrow> rank w = 0"
    using init_comm_None [OF init] by simp
  with levels mem show ?thesis
    by simp
qed

lemma py_int_0: "py_int ''0'' = Inr 0"
  by (simp add: py_int_def strip_def is_space_def parse_nat_def is_digit_def digit_val_def)

lemma example_context_cudnn_float:
  "example_context (VStr ''cudnn'') (Some (VStr ''0'')) (Some (VStr ''float'')) =
     \<lparr>backend = [''cudnn:float''], array_class = ''CudaCachedArray'', device_id = ''0''\<rparr>"
  by (simp add: example_context_def str_of_def)

lemma conf_after_setattr:
  assumes "''ext_name'' \<notin> set (dict_attrs e)" and "''device_id'' \<notin> set (dict_attrs e)"
    and "''type_config'' \<notin> set (dict_attrs e)"
  shows "init_nnabla e [] None (VStr ''cudnn'') (VStr ''0'') (VStr ''float'') =
     (case CommunicatorWrapper_init e
             (get_extension_context e (VStr ''cudnn'') (Some (VStr ''0'')) (Some (VStr ''float''))) of
        (Inl x, evs) \<Rightarrow>
          (Inl x,
           [\<lparr>klass = AttrDictClass, own_parent = None,
             items = [(''ext_name'', VStr ''cudnn''), (''device_id'', VStr ''0''),
                      (''type_config'', VStr ''float'')]\<rparr>], evs)
      | (Inr cw, evs) \<Rightarrow>
          (Inr cw,
           [\<lparr>klass = AttrDictClass, own_parent = None,
             items = [(''ext_name'', VStr ''cudnn''), (''device_id'', VStr ''0''),
                      (''type_config'', VStr ''float'')]\<rparr>],
           evs @ [SetDefaultContext (ctx cw)]
               @ (if rank cw > 0 then [LoggerSetLevel logging_ERROR] else [])))"
  using assms
  by (simp add: init_nnabla_def set_if_given_def py_setattr_def AttrDict_setattr_def
        store_get_def py_getattr_def AttrDict_getattr_def AttrDict_class_attrs_def dict_of_def
        split del: if_split cong: if_cong)

lemma init_nnabla_env_multi:
  "\<exists>w h' evs. init_nnabla env_multi [] None (VStr ''cudnn'') (VStr ''0'') (VStr ''float'')
                  = (Inr w, h', evs) \<and> rank w = 2 \<and> comm w = Some comm_rank2"
proof -
  have g: "get_extension_context env_multi = example_context"
    by (simp add: env_multi_def)
  have a: "''ext_name'' \<notin> set (dict_attrs env_multi)"
    "''device_id'' \<notin> set (dict_attrs env_multi)"
    "''type_config'' \<notin> set (dict_attrs env_multi)"
    by (simp_all add: env_multi_def)
  have p: "py_int (device_id \<lparr>backend = [''cudnn:float''], array_class = ''CudaCachedArray'',
             device_id = ''0''\<rparr>) = Inr 0"
    by (simp add: py_int_0)
  have b: "backend \<lparr>backend = [''cudnn:float''], array_class = ''CudaCachedArray'',
             device_id = ''0''\<rparr> = ''cudnn:float'' # []"
    by simp
  show ?thesis
    by (simp add: conf_after_setattr [OF a] g example_context_cudnn_float
          init_eq [OF p b] connect_env_multi comm_rank2_def)
qed

lemma init_nnabla_env_single:
  "\<exists>w h' evs. init_nnabla env_single [] None (VStr ''cudnn'') (VStr ''0'') (VStr ''float'')
                  = (Inr w, h', evs) \<and> rank w = 0 \<and> comm w = None"
proof -
  have g: "get_extension_context env_single = example_context"
    by (simp add: env_single_def)
  have a: "''ext_name'' \<notin> set (dict_attrs env_single)"
    "''device_id'' \<notin> set (dict_attrs env_single)"
    "''type_config'' \<notin> set (dict_attrs env_single)"
    by (simp_all add: env_single_def)
  have p: "py_int (device_id \<lparr>backend = [''cudnn:float''], array_class = ''CudaCachedArray'',
             device_id = ''0''\<rparr>) = Inr 0"
    by (simp add: py_int_0)
  have b: "backend \<lparr>backend = [''cudnn:float''], array_class = ''CudaCachedArray'',
             device_id = ''0''\<rparr> = ''cudnn:float'' # []"
    by simp
  show ?thesis
    by (simp add: conf_after_setattr [OF a] g example_context_cudnn_float
          init_eq [OF p b] connect_env_single)
qed

text \<open>The theorem at rank 2 of 4, where the level 40 is set, and in the fallback.\<close>

theorem init_nnabla_sets_error_level_iff_rank_positive_witness:
  "(\<exists>w h' evs. init_nnabla env_multi [] None (VStr ''cudnn'') (VStr ''0'') (VStr ''float'')
                  = (Inr w, h', evs)
        \<and> rank w = 2 \<and> set_levels evs = [40] \<and> LoggerSetLevel 40 \<in> set evs)
   \<and> (\<exists>w h' evs. init_nnabla env_single [] None (VStr ''cudnn'') (VStr ''0'') (VStr ''float'')
                  = (Inr w, h', evs)
        \<and> rank w = 0 \<and> comm w = None \<and> set_levels evs = []
        \<and> LoggerSetLevel 40 \<notin> set evs)"
proof -
  from init_nnabla_env_multi obtain w h' evs where
    m: "init_nnabla env_multi [] None (VStr ''cudnn'') (VStr ''0'') (VStr ''float'')
          = (Inr w, h', evs)" and rm: "rank w = 2"
    by blast
  from init_nnabla_env_single obtain w0 h0 evs0 where
    s: "init_nnabla env_single [] None (VStr ''cudnn'') (VStr ''0'') (VStr ''float'')
          = (Inr w0, h0, evs0)" and rs: "rank w0 = 0" and cs: "comm w0 = None"
    by blast
  have "set_levels evs = [40] \<and> LoggerSetLevel 40 \<in> set evs"
    using init_nnabla_sets_error_level_iff_rank_positive [OF m] rm
    by (simp add: logging_ERROR_def)
  moreover have "set_levels evs0 = [] \<and> LoggerSetLevel 40 \<notin> set evs0"
    using init_nnabla_sets_error_level_iff_rank_positive [OF s] rs
    by (simp add: logging_ERROR_def)
  ultimately show ?thesis
    using m s rm rs cs by blast
qed

end
